theory Spec2Isabelle
  imports Complex_Main "HOL-Library.AList"
begin

section \<open>NebulaDiary API: entries over a document store, and the search proxy\<close>

text \<open>
  A shallow embedding of \<^verbatim>\<open>main.py\<close> and \<^verbatim>\<open>schemas.py\<close>. Handlers are functions from
  their (already parsed) arguments and the state of the world to a result and the new
  state; a raised exception is the \<open>Inl\<close> branch of the result. Python strings are
  character lists, one \<open>char\<close> per code point (code points below 256).
\<close>

subsection \<open>Python values\<close>

text \<open>
  A \<open>bson.ObjectId\<close> holds the bytes that \<^verbatim>\<open>bytes.fromhex\<close> reads from its string (twelve
  for a string of 24 hexadecimal digits); two ObjectIds are equal when their bytes are,
  so that two spellings of the same identifier (upper or lower case) are equal.
\<close>

datatype oid = Oid "nat list"

text \<open>
  The values that travel through the handlers: parsed JSON (\<open>None\<close>, booleans, numbers,
  strings, lists, dicts) and the two non-JSON values a stored document holds (a
  \<open>datetime\<close>, as a point on the clock, and an \<open>ObjectId\<close>). A dict is an association
  list in insertion order with distinct keys; a lookup takes the first binding.
\<close>

datatype pyval =
    PNone
  | PBool bool
  | PInt int
  | PFloat rat
  | PStr string
  | PList "pyval list"
  | PDict "(string \<times> pyval) list"
  | PDatetime int
  | PObjectId oid

type_synonym pydict = "(string \<times> pyval) list"

text \<open>Truth value testing, as \<^verbatim>\<open>if v\<close>, \<^verbatim>\<open>not v\<close> and \<^verbatim>\<open>a or b\<close> apply it.\<close>

fun truthy :: "pyval \<Rightarrow> bool" where
  "truthy PNone = False"
| "truthy (PBool b) = b"
| "truthy (PInt n) = (n \<noteq> 0)"
| "truthy (PFloat r) = (r \<noteq> 0)"
| "truthy (PStr s) = (s \<noteq> [])"
| "truthy (PList xs) = (xs \<noteq> [])"
| "truthy (PDict kvs) = (kvs \<noteq> [])"
| "truthy (PDatetime t) = True"
| "truthy (PObjectId i) = True"

text \<open>\<^verbatim>\<open>a or b\<close> on values (both operands already evaluated).\<close>

definition py_or :: "pyval \<Rightarrow> pyval \<Rightarrow> pyval" where
  "py_or a b = (if truthy a then a else b)"

text \<open>\<^verbatim>\<open>type(v).__name__\<close>, as exception messages print it.\<close>

fun type_name :: "pyval \<Rightarrow> string" where
  "type_name PNone = ''NoneType''"
| "type_name (PBool b) = ''bool''"
| "type_name (PInt n) = ''int''"
| "type_name (PFloat r) = ''float''"
| "type_name (PStr s) = ''str''"
| "type_name (PList xs) = ''list''"
| "type_name (PDict kvs) = ''dict''"
| "type_name (PDatetime t) = ''datetime.datetime''"
| "type_name (PObjectId i) = ''ObjectId''"

subsection \<open>Errors\<close>

text \<open>
  The built-in and library exceptions that the code of the handlers can raise, each a
  subclass of \<open>Exception\<close> and each with the text that \<^verbatim>\<open>str(e)\<close> gives: an exception of
  the \<open>requests\<close> library, an \<open>AttributeError\<close>, a \<open>TypeError\<close>.
\<close>

datatype fault =
    RequestException string
  | AttributeError string
  | TypeError string

definition quoted :: "string \<Rightarrow> string" where
  "quoted s = CHR 0x27 # s @ [CHR 0x27]"

text \<open>\<^verbatim>\<open>str(e)\<close> for such an exception.\<close>

fun fault_str :: "fault \<Rightarrow> string" where
  "fault_str (RequestException m) = m"
| "fault_str (AttributeError m) = m"
| "fault_str (TypeError m) = m"

text \<open>
  What a handler can end with instead of a result. \<open>HTTPException\<close> carries the status
  code and the detail the code gives it. \<open>RequestValidationError\<close> is the framework's
  rejection of a body that does not fit the declared model. \<open>InvalidId\<close> is raised by
  \<open>ObjectId\<close>; \<open>StorageUnavailable\<close> is the failure of the store adapter; \<open>Unhandled\<close> is
  any other exception that leaves a handler. None of the last three is caught by any
  handler.
\<close>

datatype error =
    HTTPException nat string
  | RequestValidationError
  | InvalidId string
  | StorageUnavailable
  | Unhandled fault

text \<open>
  The status code of the response: an \<open>HTTPException\<close> gives its own, a validation error
  is 422, and an exception no handler catches is answered with 500.
\<close>

fun http_status :: "error \<Rightarrow> nat" where
  "http_status (HTTPException c d) = c"
| "http_status RequestValidationError = 422"
| "http_status (InvalidId s) = 500"
| "http_status StorageUnavailable = 500"
| "http_status (Unhandled f) = 500"

definition client_class :: "error \<Rightarrow> bool" where
  "client_class e = (400 \<le> http_status e \<and> http_status e < 500)"

definition server_class :: "error \<Rightarrow> bool" where
  "server_class e = (500 \<le> http_status e \<and> http_status e < 600)"

subsection \<open>ObjectId\<close>

definition hex_digit :: "char \<Rightarrow> nat option" where
  "hex_digit c =
     (let n = (of_char c :: nat)
      in if 48 \<le> n \<and> n \<le> 57 then Some (n - 48)
         else if 97 \<le> n \<and> n \<le> 102 then Some (n - 87)
         else if 65 \<le> n \<and> n \<le> 70 then Some (n - 55)
         else None)"

text \<open>ASCII whitespace, which \<^verbatim>\<open>bytes.fromhex\<close> skips (Python 3.7 and later).\<close>

definition ascii_space :: "char \<Rightarrow> bool" where
  "ascii_space c =
     (let n = (of_char c :: nat)
      in (9 \<le> n \<and> n \<le> 13) \<or> n = 32)"

text \<open>
  \<^verbatim>\<open>bytes.fromhex(s)\<close>: the bytes, or \<open>None\<close> where it raises \<open>ValueError\<close>. Whitespace
  is skipped before a byte and at the end; a byte is two hexadecimal digits with nothing
  between them.
\<close>

fun fromhex :: "string \<Rightarrow> nat list option" where
  "fromhex [] = Some []"
| "fromhex [c] = (if ascii_space c then Some [] else None)"
| "fromhex (c # c' # cs) =
     (if ascii_space c then fromhex (c' # cs)
      else (case (hex_digit c, hex_digit c') of
              (Some hi, Some lo) \<Rightarrow> map_option ((#) (16 * hi + lo)) (fromhex cs)
            | _ \<Rightarrow> None))"

text \<open>
  \<^verbatim>\<open>ObjectId(entry_id)\<close> for a \<open>str\<close>: a string of 24 characters that \<^verbatim>\<open>bytes.fromhex\<close>
  accepts is accepted (24 hexadecimal digits give twelve bytes; with whitespace among the
  24 characters there are fewer), anything else raises \<open>InvalidId\<close>.
\<close>

definition ObjectId :: "string \<Rightarrow> error + oid" where
  "ObjectId s =
     (if length s = 24
      then (case fromhex s of
              Some bs \<Rightarrow> Inr (Oid bs)
            | None \<Rightarrow> Inl (InvalidId s))
      else Inl (InvalidId s))"

subsection \<open>The document store\<close>

text \<open>
  A collection maps the \<open>_id\<close> of each stored document to the document (its other
  fields); \<open>_id\<close> is unique by construction. A database gives a collection for every name
  (one never written to is empty). The module-level \<open>db\<close> is \<open>None\<close> when no connection
  string was configured. The world also records, in order, every operation sent to the
  store, so that "the store was not touched" can be said.
\<close>

type_synonym document = pydict
type_synonym collection = "oid \<rightharpoonup> document"
type_synonym database = "string \<Rightarrow> collection"

datatype store_op =
    InsertOne string document
  | UpdateOne string oid pydict
  | DeleteOne string oid

record world =
  db :: "database option"
  store_log :: "store_op list"

text \<open>\<^verbatim>\<open>{"$set": kvs}\<close> applied to one document: each field is overwritten or appended.\<close>

fun set_fields :: "pydict \<Rightarrow> document \<Rightarrow> document" where
  "set_fields [] doc = doc"
| "set_fields ((k, v) # kvs) doc = set_fields kvs (AList.update k v doc)"

text \<open>
  \<^verbatim>\<open>collection.update_one({"_id": i}, {"$set": kvs})\<close>: the matched count and the
  collection afterwards.
\<close>

definition update_one :: "collection \<Rightarrow> oid \<Rightarrow> pydict \<Rightarrow> nat \<times> collection" where
  "update_one c i kvs =
     (case c i of
        None \<Rightarrow> (0, c)
      | Some doc \<Rightarrow> (1, c(i \<mapsto> set_fields kvs doc)))"

text \<open>\<^verbatim>\<open>collection.delete_one({"_id": i})\<close>: the deleted count and the collection afterwards.\<close>

definition delete_one :: "collection \<Rightarrow> oid \<Rightarrow> nat \<times> collection" where
  "delete_one c i =
     (case c i of
        None \<Rightarrow> (0, c)
      | Some doc \<Rightarrow> (1, c(i := None)))"

subsection \<open>Schemas\<close>

text \<open>\<^verbatim>\<open>schemas.Entry\<close>, and \<^verbatim>\<open>EntryUpdate\<close> of main.py, after validation.\<close>

record Entry =
  title :: string
  media_type :: string
  year :: "int option"
  image :: "string option"
  external_id :: "string option"
  source :: "string option"
  status :: string
  rating :: "int option"
  review :: "string option"

record EntryUpdate =
  status :: "string option"
  rating :: "int option"
  review :: "string option"

text \<open>
  A request body before validation: each declared field is absent (or null) or holds a
  value of the declared base type; \<open>extra\<close> holds the fields the model does not declare.
  Absent and null are told apart for the \<open>status\<close> of a create body, the one field where
  the model treats them differently (the default is taken for an absent field only, and
  the field is not \<open>Optional\<close>).
\<close>

datatype 'a field = Absent | Null | Given 'a

record entry_body =
  body_title :: "string option"
  body_media_type :: "string option"
  body_year :: "int option"
  body_image :: "string option"
  body_external_id :: "string option"
  body_source :: "string option"
  body_status :: "string field"
  body_rating :: "int option"
  body_review :: "string option"
  body_extra :: pydict

record update_body =
  patch_status :: "string option"
  patch_rating :: "int option"
  patch_review :: "string option"
  patch_extra :: pydict

definition media_types :: "string list" where
  "media_types = [''movie'', ''series'', ''anime'']"

definition statuses :: "string list" where
  "statuses = [''Planned'', ''Watching'', ''Completed'', ''Dropped'']"

text \<open>\<^verbatim>\<open>Field(None, ge=lo, le=hi)\<close> on an optional integer.\<close>

fun in_bounds :: "int \<Rightarrow> int \<Rightarrow> int option \<Rightarrow> bool" where
  "in_bounds lo hi None = True"
| "in_bounds lo hi (Some n) = (lo \<le> n \<and> n \<le> hi)"

text \<open>
  Validation of a create body against \<open>Entry\<close>: \<open>title\<close> and \<open>media_type\<close> are required,
  the two literals are checked, an absent \<open>status\<close> defaults to \<open>Planned\<close> and a null one
  is rejected, \<open>year\<close> is within 1800..2100 and \<open>rating\<close> within 1..5. Undeclared fields
  are dropped.
\<close>

definition validate_Entry :: "entry_body \<Rightarrow> error + Entry" where
  "validate_Entry b =
     (case (body_title b, body_media_type b,
            (case body_status b of
               Absent \<Rightarrow> Some ''Planned''
             | Null \<Rightarrow> None
             | Given s \<Rightarrow> Some s)) of
        (Some t, Some m, Some s) \<Rightarrow>
          (if m \<in> set media_types \<and> s \<in> set statuses
              \<and> in_bounds 1800 2100 (body_year b) \<and> in_bounds 1 5 (body_rating b)
           then Inr \<lparr> title = t, media_type = m, year = body_year b,
                      image = body_image b, external_id = body_external_id b,
                      source = body_source b, Entry.status = s,
                      Entry.rating = body_rating b, Entry.review = body_review b \<rparr>
           else Inl RequestValidationError)
      | _ \<Rightarrow> Inl RequestValidationError)"

text \<open>
  Validation of a patch body against \<open>EntryUpdate\<close>: every field is optional, \<open>status\<close>
  is one of the four literals, \<open>rating\<close> is any integer and \<open>review\<close> any string.
  Undeclared fields are dropped.
\<close>

definition validate_EntryUpdate :: "update_body \<Rightarrow> error + EntryUpdate" where
  "validate_EntryUpdate b =
     (case patch_status b of
        Some s \<Rightarrow>
          (if s \<in> set statuses
           then Inr \<lparr> EntryUpdate.status = Some s, EntryUpdate.rating = patch_rating b,
                      EntryUpdate.review = patch_review b \<rparr>
           else Inl RequestValidationError)
      | None \<Rightarrow>
          Inr \<lparr> EntryUpdate.status = None, EntryUpdate.rating = patch_rating b,
                 EntryUpdate.review = patch_review b \<rparr>)"

text \<open>\<^verbatim>\<open>payload.model_dump(exclude_none=True)\<close>: the fields that are not \<open>None\<close>, in order.\<close>

definition model_dump_exclude_none :: "EntryUpdate \<Rightarrow> pydict" where
  "model_dump_exclude_none p =
     (case EntryUpdate.status p of None \<Rightarrow> [] | Some s \<Rightarrow> [(''status'', PStr s)])
     @ (case EntryUpdate.rating p of None \<Rightarrow> [] | Some n \<Rightarrow> [(''rating'', PInt n)])
     @ (case EntryUpdate.review p of None \<Rightarrow> [] | Some r \<Rightarrow> [(''review'', PStr r)])"

fun opt_str :: "string option \<Rightarrow> pyval" where
  "opt_str None = PNone"
| "opt_str (Some s) = PStr s"

fun opt_int :: "int option \<Rightarrow> pyval" where
  "opt_int None = PNone"
| "opt_int (Some n) = PInt n"

text \<open>\<^verbatim>\<open>payload.model_dump()\<close> of an \<open>Entry\<close>: every field, in declaration order.\<close>

definition model_dump :: "Entry \<Rightarrow> pydict" where
  "model_dump e =
     [(''title'', PStr (title e)), (''media_type'', PStr (media_type e)),
      (''year'', opt_int (year e)), (''image'', opt_str (image e)),
      (''external_id'', opt_str (external_id e)), (''source'', opt_str (source e)),
      (''status'', PStr (Entry.status e)), (''rating'', opt_int (Entry.rating e)),
      (''review'', opt_str (Entry.review e))]"

subsection \<open>Entry endpoints\<close>

definition hex_char :: "nat \<Rightarrow> char" where
  "hex_char n = char_of (if n < 10 then 48 + n else 87 + n)"

text \<open>\<^verbatim>\<open>str(oid)\<close>: two lower-case hexadecimal digits for each byte.\<close>

fun oid_str :: "oid \<Rightarrow> string" where
  "oid_str (Oid bs) = concat (map (\<lambda>b. [hex_char (b div 16), hex_char (b mod 16)]) bs)"

text \<open>
  Modelled from the spec: \<^verbatim>\<open>create_document\<close> of the store adapter (module
  \<^verbatim>\<open>database\<close>), which main.py imports and calls. The spec has it insert the record into
  the collection and return the newly assigned identifier as a string, and fail with
  \<open>StorageUnavailable\<close> if no store connection exists. The identifier the store assigns
  is the argument \<open>new_id\<close>.
\<close>

definition create_document :: "oid \<Rightarrow> string \<Rightarrow> document \<Rightarrow> world \<Rightarrow> (error + string) \<times> world" where
  "create_document new_id name doc w =
     (case db w of
        None \<Rightarrow> (Inl StorageUnavailable, w)
      | Some d \<Rightarrow>
          (Inr (oid_str new_id),
           w\<lparr> db := Some (d(name := (d name)(new_id \<mapsto> doc))),
              store_log := store_log w @ [InsertOne name doc] \<rparr>))"

text \<open>\<^verbatim>\<open>POST /entries\<close>.\<close>

definition create_entry :: "oid \<Rightarrow> Entry \<Rightarrow> world \<Rightarrow> (error + pyval) \<times> world" where
  "create_entry new_id payload w =
     (case create_document new_id ''entry'' (model_dump payload) w of
        (Inl e, w') \<Rightarrow> (Inl e, w')
      | (Inr entry_id, w') \<Rightarrow> (Inr (PDict [(''id'', PStr entry_id)]), w'))"

text \<open>
  \<^verbatim>\<open>serialize_doc\<close>: a falsy (empty) document is returned as it is; otherwise \<open>_id\<close>,
  if there, is removed and its \<open>str\<close> stored under \<open>id\<close>. Python's \<open>str\<close> on an arbitrary
  value is the parameter \<open>py_str\<close>.
\<close>

definition serialize_doc :: "(pyval \<Rightarrow> string) \<Rightarrow> document \<Rightarrow> document" where
  "serialize_doc py_str doc =
     (if doc = [] then doc
      else (case map_of doc ''_id'' of
              None \<Rightarrow> doc
            | Some v \<Rightarrow> AList.update ''id'' (PStr (py_str v)) (AList.delete ''_id'' doc)))"

text \<open>
  \<^verbatim>\<open>if v: filt[k] = v\<close> for an \<^verbatim>\<open>Optional[str]\<close> query parameter: \<open>None\<close> and the
  empty string are falsy and add nothing.
\<close>


definition add_filter :: "string \<Rightarrow> string option \<Rightarrow> pydict \<Rightarrow> pydict" where
  "add_filter k v filt =
     (case v of
        None \<Rightarrow> filt
      | Some s \<Rightarrow> if s \<noteq> [] then AList.update k (PStr s) filt else filt)"

definition list_filter :: "string option \<Rightarrow> string option \<Rightarrow> pydict" where
  "list_filter mt st = add_filter ''status'' st (add_filter ''media_type'' mt [])"

text \<open>
  \<^verbatim>\<open>GET /entries\<close>. \<^verbatim>\<open>get_documents\<close> of the store adapter is a parameter: given the
  collection name, the filter and the limit it returns the documents or raises.
\<close>

definition list_entries ::
  "(string \<Rightarrow> pydict \<Rightarrow> int option \<Rightarrow> error + document list) \<Rightarrow> (pyval \<Rightarrow> string)
   \<Rightarrow> string option \<Rightarrow> string option \<Rightarrow> int option \<Rightarrow> error + pyval list" where
  "list_entries get_documents py_str mt st limit =
     (case get_documents ''entry'' (list_filter mt st) limit of
        Inl e \<Rightarrow> Inl e
      | Inr docs \<Rightarrow> Inr (map (\<lambda>d. PDict (serialize_doc py_str d)) docs))"

text \<open>
  \<^verbatim>\<open>requests.utils.datetime.datetime.utcnow()\<close> (main.py line 118), with the clock at
  \<open>now\<close>. The module \<^verbatim>\<open>requests.utils\<close> does not import \<^verbatim>\<open>datetime\<close>, defines no such
  name and has no module-level \<^verbatim>\<open>__getattr__\<close>, so the first attribute lookup raises
  \<open>AttributeError\<close> and the clock is never read.
\<close>

definition no_datetime :: fault where
  "no_datetime =
     AttributeError (''module '' @ quoted ''requests.utils''
                     @ '' has no attribute '' @ quoted ''datetime'')"

definition requests_utils_utcnow :: "int \<Rightarrow> fault + pyval" where
  "requests_utils_utcnow now = Inl no_datetime"

text \<open>
  \<^verbatim>\<open>PATCH /entries/{entry_id}\<close>; \<open>now\<close> is the time of the call. The statements after the
  stamp of \<open>updated_at\<close> are kept as the code has them, although the stamp always raises.
\<close>

definition update_entry :: "int \<Rightarrow> string \<Rightarrow> EntryUpdate \<Rightarrow> world \<Rightarrow> (error + pyval) \<times> world" where
  "update_entry now entry_id payload w =
     (case db w of
        None \<Rightarrow> (Inl (HTTPException 500 ''Database not available''), w)
      | Some d \<Rightarrow>
          (let updates = model_dump_exclude_none payload
           in if updates = [] then (Inr (PDict [(''updated'', PBool False)]), w)
              else
                (case requests_utils_utcnow now of
                   Inl f \<Rightarrow> (Inl (Unhandled f), w)
                 | Inr stamp \<Rightarrow>
                     (let updates = AList.update ''updated_at'' stamp updates
                      in case ObjectId entry_id of
                           Inl e \<Rightarrow> (Inl e, w)
                         | Inr i \<Rightarrow>
                             (case update_one (d ''entry'') i updates of
                                (matched_count, c) \<Rightarrow>
                                  (let w' = w\<lparr> db := Some (d(''entry'' := c)),
                                               store_log := store_log w
                                                 @ [UpdateOne ''entry'' i updates] \<rparr>
                                   in if matched_count = 0
                                      then (Inl (HTTPException 404 ''Entry not found''), w')
                                      else (Inr (PDict [(''updated'', PBool True)]), w')))))))"

text \<open>\<^verbatim>\<open>DELETE /entries/{entry_id}\<close>.\<close>

definition delete_entry :: "string \<Rightarrow> world \<Rightarrow> (error + pyval) \<times> world" where
  "delete_entry entry_id w =
     (case db w of
        None \<Rightarrow> (Inl (HTTPException 500 ''Database not available''), w)
      | Some d \<Rightarrow>
          (case ObjectId entry_id of
             Inl e \<Rightarrow> (Inl e, w)
           | Inr i \<Rightarrow>
               (case delete_one (d ''entry'') i of
                  (deleted_count, c) \<Rightarrow>
                    (let w' = w\<lparr> db := Some (d(''entry'' := c)),
                                 store_log := store_log w @ [DeleteOne ''entry'' i] \<rparr>
                     in if deleted_count = 0
                        then (Inl (HTTPException 404 ''Entry not found''), w')
                        else (Inr (PDict [(''deleted'', PBool True)]), w')))))"

text \<open>
  The routes as a client reaches them: the body is validated against the declared model
  first, and the handler runs only on a valid payload.
\<close>

definition post_entries :: "oid \<Rightarrow> entry_body \<Rightarrow> world \<Rightarrow> (error + pyval) \<times> world" where
  "post_entries new_id body w =
     (case validate_Entry body of
        Inl e \<Rightarrow> (Inl e, w)
      | Inr payload \<Rightarrow> create_entry new_id payload w)"

definition patch_entries :: "int \<Rightarrow> string \<Rightarrow> update_body \<Rightarrow> world \<Rightarrow> (error + pyval) \<times> world" where
  "patch_entries now entry_id body w =
     (case validate_EntryUpdate body of
        Inl e \<Rightarrow> (Inl e, w)
      | Inr payload \<Rightarrow> update_entry now entry_id payload w)"

subsection \<open>Search: Python operations on parsed JSON\<close>

text \<open>
  The body of the \<^verbatim>\<open>try\<close> block of \<^verbatim>\<open>search\<close> runs its steps in order; the first
  exception ends it.
\<close>

definition and_then :: "fault + 'a \<Rightarrow> ('a \<Rightarrow> fault + 'b) \<Rightarrow> fault + 'b" where
  "and_then m f = (case m of Inl e \<Rightarrow> Inl e | Inr x \<Rightarrow> f x)"

text \<open>\<^verbatim>\<open>v.get(k, dflt)\<close>: only a dict has the method.\<close>

fun py_get :: "pyval \<Rightarrow> string \<Rightarrow> pyval \<Rightarrow> fault + pyval" where
  "py_get (PDict kvs) k dflt = Inr (case map_of kvs k of Some v \<Rightarrow> v | None \<Rightarrow> dflt)"
| "py_get v k dflt =
     Inl (AttributeError (quoted (type_name v) @ '' object has no attribute '' @ quoted ''get''))"

text \<open>\<^verbatim>\<open>xs[:n]\<close> on a sequence: a negative \<open>n\<close> counts from the end.\<close>

definition py_take :: "int \<Rightarrow> 'a list \<Rightarrow> 'a list" where
  "py_take n xs = (if 0 \<le> n then take (nat n) xs else take (length xs - nat (- n)) xs)"

text \<open>
  \<^verbatim>\<open>v[:n]\<close> on a value: strings and lists are sliced, a dict raises on the slice object
  as a key, and nothing else is subscriptable.
\<close>

fun py_slice_to :: "int \<Rightarrow> pyval \<Rightarrow> fault + pyval" where
  "py_slice_to n (PStr s) = Inr (PStr (py_take n s))"
| "py_slice_to n (PList xs) = Inr (PList (py_take n xs))"
| "py_slice_to n (PDict kvs) = Inl (TypeError (''unhashable type: '' @ quoted ''slice''))"
| "py_slice_to n v = Inl (TypeError (quoted (type_name v) @ '' object is not subscriptable''))"

text \<open>
  \<^verbatim>\<open>for item in v[:n]\<close>: the items the loop visits. A sliced string is visited
  character by character.
\<close>

definition sliced_items :: "int \<Rightarrow> pyval \<Rightarrow> fault + pyval list" where
  "sliced_items n v =
     and_then (py_slice_to n v) (\<lambda>s.
       case s of
         PList xs \<Rightarrow> Inr xs
       | PStr cs \<Rightarrow> Inr (map (\<lambda>c. PStr [c]) cs)
       | _ \<Rightarrow> Inl (TypeError (quoted (type_name s) @ '' object is not iterable'')))"

text \<open>The loop body run on each item in turn; the first exception ends the loop.\<close>

fun for_each :: "('a \<Rightarrow> fault + 'b) \<Rightarrow> 'a list \<Rightarrow> fault + 'b list" where
  "for_each f [] = Inr []"
| "for_each f (x # xs) =
     and_then (f x) (\<lambda>y. and_then (for_each f xs) (\<lambda>ys. Inr (y # ys)))"

text \<open>\<^verbatim>\<open>(v or "")[:4] or None\<close>, the year of a series or a movie.\<close>

definition first4_or_none :: "pyval \<Rightarrow> fault + pyval" where
  "first4_or_none v =
     and_then (py_slice_to 4 (py_or v (PStr []))) (\<lambda>s. Inr (py_or s PNone))"

subsection \<open>Search: the upstream providers\<close>

record request =
  url :: string
  params :: pydict
  timeout :: nat

text \<open>
  A response of a provider: its status code, the text of the \<open>HTTPError\<close> that
  \<^verbatim>\<open>raise_for_status\<close> raises for it when the status is an error, and its body, either
  parsed JSON or the text of the decoding error that \<^verbatim>\<open>r.json()\<close> raises.
\<close>

record response =
  status_code :: nat
  http_error :: string
  body :: "string + pyval"

text \<open>
  The network: \<^verbatim>\<open>requests.get\<close> either raises (connection error, timeout), with the
  text of the exception, or returns a response.
\<close>

type_synonym upstream = "request \<Rightarrow> string + response"

definition requests_get :: "upstream \<Rightarrow> request \<Rightarrow> fault + response" where
  "requests_get net req = (case net req of Inl m \<Rightarrow> Inl (RequestException m) | Inr r \<Rightarrow> Inr r)"

definition raise_for_status :: "response \<Rightarrow> fault + unit" where
  "raise_for_status r =
     (if 400 \<le> status_code r \<and> status_code r < 600
      then Inl (RequestException (http_error r)) else Inr ())"

definition json :: "response \<Rightarrow> fault + pyval" where
  "json r = (case body r of Inl m \<Rightarrow> Inl (RequestException m) | Inr v \<Rightarrow> Inr v)"

subsection \<open>Search: normalisation per provider\<close>

text \<open>
  \<^verbatim>\<open>(item.get("aired") or {}).get("prop", {}).get("from", {}).get("year")\<close>: the year
  of the first-aired date.
\<close>

definition first_aired_year :: "pyval \<Rightarrow> fault + pyval" where
  "first_aired_year item =
     and_then (py_get item ''aired'' PNone) (\<lambda>a.
     and_then (py_get (py_or a (PDict [])) ''prop'' (PDict [])) (\<lambda>p.
     and_then (py_get p ''from'' (PDict [])) (\<lambda>f.
     py_get f ''year'' PNone)))"

text \<open>
  \<^verbatim>\<open>item.get("year") or <first-aired year>\<close>; the right operand of \<open>or\<close> is evaluated
  only when the left one is falsy.
\<close>

definition anime_year :: "pyval \<Rightarrow> fault + pyval" where
  "anime_year item =
     and_then (py_get item ''year'' PNone) (\<lambda>y.
       if truthy y then Inr y else first_aired_year item)"

text \<open>\<^verbatim>\<open>(item.get("images", {}).get("jpg", {}) or {})\<close>.\<close>

definition anime_jpg :: "pyval \<Rightarrow> fault + pyval" where
  "anime_jpg item =
     and_then (py_get item ''images'' (PDict [])) (\<lambda>i.
     and_then (py_get i ''jpg'' (PDict [])) (\<lambda>j.
     Inr (py_or j (PDict []))))"

definition anime_image :: "pyval \<Rightarrow> fault + pyval" where
  "anime_image item =
     and_then (anime_jpg item) (\<lambda>j.
     and_then (py_get j ''large_image_url'' PNone) (\<lambda>large.
       if truthy large then Inr large
       else and_then (anime_jpg item) (\<lambda>j'. py_get j' ''image_url'' PNone)))"

definition anime_result :: "(pyval \<Rightarrow> string) \<Rightarrow> pyval \<Rightarrow> fault + pyval" where
  "anime_result py_str item =
     and_then (py_get item ''title'' PNone) (\<lambda>t.
     and_then (anime_year item) (\<lambda>y.
     and_then (anime_image item) (\<lambda>i.
     and_then (py_get item ''mal_id'' PNone) (\<lambda>m.
     Inr (PDict [(''title'', t), (''year'', y), (''image'', i),
                 (''external_id'', PStr (py_str m)),
                 (''source'', PStr ''jikan''), (''media_type'', PStr ''anime'')])))))"

definition series_result :: "(pyval \<Rightarrow> string) \<Rightarrow> pyval \<Rightarrow> fault + pyval" where
  "series_result py_str item =
     and_then (py_get item ''show'' (PDict [])) (\<lambda>show.
     and_then (py_get show ''image'' PNone) (\<lambda>i.
       let img = py_or i (PDict [])
       in
     and_then (py_get show ''name'' PNone) (\<lambda>t.
     and_then (py_get show ''premiered'' PNone) (\<lambda>p.
     and_then (first4_or_none p) (\<lambda>y.
     and_then (py_get img ''original'' PNone) (\<lambda>orig.
     and_then (if truthy orig then Inr orig else py_get img ''medium'' PNone) (\<lambda>im.
     and_then (py_get show ''id'' PNone) (\<lambda>n.
     Inr (PDict [(''title'', t), (''year'', y), (''image'', im),
                 (''external_id'', PStr (py_str n)),
                 (''source'', PStr ''tvmaze''), (''media_type'', PStr ''series'')])))))))))"

definition movie_result :: "(pyval \<Rightarrow> string) \<Rightarrow> pyval \<Rightarrow> fault + pyval" where
  "movie_result py_str item =
     and_then (py_get item ''trackName'' PNone) (\<lambda>t.
     and_then (py_get item ''releaseDate'' PNone) (\<lambda>d.
     and_then (first4_or_none d) (\<lambda>y.
     and_then (py_get item ''artworkUrl100'' PNone) (\<lambda>i.
     and_then (py_get item ''trackId'' PNone) (\<lambda>n.
     Inr (PDict [(''title'', t), (''year'', y), (''image'', i),
                 (''external_id'', PStr (py_str n)),
                 (''source'', PStr ''itunes''), (''media_type'', PStr ''movie'')]))))))"

subsection \<open>Search: the endpoint\<close>

text \<open>Whitespace as \<^verbatim>\<open>str.strip()\<close> sees it, among the code points below 256.\<close>

definition py_isspace :: "char \<Rightarrow> bool" where
  "py_isspace c =
     (let n = (of_char c :: nat)
      in (9 \<le> n \<and> n \<le> 13) \<or> (28 \<le> n \<and> n \<le> 32) \<or> n = 133 \<or> n = 160)"

definition strip :: "string \<Rightarrow> string" where
  "strip s = rev (dropWhile py_isspace (rev (dropWhile py_isspace s)))"

definition anime_request :: "string \<Rightarrow> int \<Rightarrow> request" where
  "anime_request q limit =
     \<lparr> url = ''https://api.jikan.moe/v4/anime'',
       params = [(''q'', PStr q), (''limit'', PInt (min limit 10)), (''sfw'', PBool True)],
       timeout = 10 \<rparr>"

definition series_request :: "string \<Rightarrow> request" where
  "series_request q =
     \<lparr> url = ''https://api.tvmaze.com/search/shows'',
       params = [(''q'', PStr q)],
       timeout = 10 \<rparr>"

definition movie_request :: "string \<Rightarrow> int \<Rightarrow> request" where
  "movie_request q limit =
     \<lparr> url = ''https://itunes.apple.com/search'',
       params = [(''term'', PStr q), (''media'', PStr ''movie''), (''limit'', PInt (min limit 20))],
       timeout = 10 \<rparr>"

text \<open>The body of the \<^verbatim>\<open>try\<close> block, given the stripped, non-empty query.\<close>

definition search_body ::
  "upstream \<Rightarrow> (pyval \<Rightarrow> string) \<Rightarrow> string \<Rightarrow> string \<Rightarrow> int \<Rightarrow> fault + pyval list" where
  "search_body net py_str q mt limit =
     (if mt = ''anime'' then
        and_then (requests_get net (anime_request q limit)) (\<lambda>r.
        and_then (raise_for_status r) (\<lambda>_.
        and_then (json r) (\<lambda>j.
        and_then (py_get j ''data'' (PList [])) (\<lambda>d.
        and_then (sliced_items limit d) (for_each (anime_result py_str))))))
      else if mt = ''series'' then
        and_then (requests_get net (series_request q)) (\<lambda>r.
        and_then (raise_for_status r) (\<lambda>_.
        and_then (json r) (\<lambda>j.
        and_then (sliced_items limit j) (for_each (series_result py_str)))))
      else
        and_then (requests_get net (movie_request q limit)) (\<lambda>r.
        and_then (raise_for_status r) (\<lambda>_.
        and_then (json r) (\<lambda>j.
        and_then (py_get j ''results'' (PList [])) (\<lambda>d.
        and_then (sliced_items limit d) (for_each (movie_result py_str)))))))"

text \<open>The request \<^verbatim>\<open>search\<close> sends for a stripped, non-empty query.\<close>

definition search_request :: "string \<Rightarrow> string \<Rightarrow> int \<Rightarrow> request" where
  "search_request q mt limit =
     (if mt = ''anime'' then anime_request q limit
      else if mt = ''series'' then series_request q
      else movie_request q limit)"

text \<open>
  \<^verbatim>\<open>GET /search\<close>: the requests sent to the providers, and the result. Any exception of
  the body becomes an \<open>HTTPException\<close> with status 502.
\<close>

definition search ::
  "upstream \<Rightarrow> (pyval \<Rightarrow> string) \<Rightarrow> string \<Rightarrow> string \<Rightarrow> int \<Rightarrow> request list \<times> (error + pyval list)" where
  "search net py_str q mt limit =
     (let q = strip q
      in if q = [] then ([], Inr [])
         else
           ([search_request q mt limit],
            (case search_body net py_str q mt limit of
               Inr results \<Rightarrow> Inr results
             | Inl e \<Rightarrow> Inl (HTTPException 502 (''Search failed: '' @ take 120 (fault_str e))))))"

subsection \<open>Predicates used to state the properties\<close>

text \<open>
  The provider call failed: \<^verbatim>\<open>requests.get\<close> raised (network error, timeout), or the
  response has an error status (400 to 599, where \<^verbatim>\<open>raise_for_status\<close> raises), or its
  body is not JSON.
\<close>

definition upstream_failed :: "upstream \<Rightarrow> request \<Rightarrow> bool" where
  "upstream_failed net req =
     (case net req of
        Inl m \<Rightarrow> True
      | Inr r \<Rightarrow> (400 \<le> status_code r \<and> status_code r < 600) \<or> isl (body r))"

text \<open>
  The text of the exception that a failed provider call raises: that of the exception
  of \<^verbatim>\<open>requests.get\<close>, else that of the \<open>HTTPError\<close> of \<^verbatim>\<open>raise_for_status\<close>, else that
  of the decoding error of \<^verbatim>\<open>r.json()\<close>.
\<close>

definition failure_text :: "upstream \<Rightarrow> request \<Rightarrow> string" where
  "failure_text net req =
     (case net req of
        Inl m \<Rightarrow> m
      | Inr r \<Rightarrow>
          if 400 \<le> status_code r \<and> status_code r < 600 then http_error r
          else (case body r of Inl m \<Rightarrow> m | Inr v \<Rightarrow> []))"

text \<open>
  How the \<open>year\<close> of an anime result relates to the provider's item: it is the item's
  own \<open>year\<close> when that is truthy, and what \<open>first_aired_year\<close> returns otherwise.
\<close>

definition year_rule :: "pyval \<Rightarrow> pyval \<Rightarrow> bool" where
  "year_rule item res =
     (case (py_get item ''year'' PNone, py_get res ''year'' PNone) of
        (Inr t, Inr y) \<Rightarrow> (if truthy t then y = t else first_aired_year item = Inr y)
      | _ \<Rightarrow> False)"

subsection \<open>Concrete inputs\<close>

definition example_id :: string where
  "example_id = ''507f1f77bcf86cd799439011''"

definition example_oid :: oid where
  "example_oid = Oid [80, 127, 31, 119, 188, 248, 108, 215, 153, 67, 144, 17]"





definition example_doc :: document where
  "example_doc = [(''title'', PStr ''Dune''), (''media_type'', PStr ''movie''),
                  (''status'', PStr ''Planned''), (''rating'', PNone)]"

definition example_db :: database where
  "example_db = (\<lambda>name. Map.empty)(''entry'' := [example_oid \<mapsto> example_doc])"

definition connected :: world where
  "connected = \<lparr> db = Some example_db, store_log = [] \<rparr>"

definition disconnected :: world where
  "disconnected = \<lparr> db = None, store_log = [] \<rparr>"

definition example_entry :: Entry where
  "example_entry =
     \<lparr> title = ''Arrival'', media_type = ''movie'', year = Some 2016, image = None,
       external_id = None, source = None, Entry.status = ''Planned'',
       Entry.rating = None, Entry.review = None \<rparr>"

definition rated_body :: entry_body where
  "rated_body =
     \<lparr> body_title = Some ''Arrival'', body_media_type = Some ''movie'', body_year = None,
       body_image = None, body_external_id = None, body_source = None, body_status = Absent,
       body_rating = Some 10, body_review = None, body_extra = [] \<rparr>"

definition empty_patch :: update_body where
  "empty_patch =
     \<lparr> patch_status = None, patch_rating = None, patch_review = None, patch_extra = [] \<rparr>"

definition unrecognized_patch :: update_body where
  "unrecognized_patch =
     \<lparr> patch_status = None, patch_rating = None, patch_review = None,
       patch_extra = [(''title'', PStr ''Arrival'')] \<rparr>"

definition rating_patch :: update_body where
  "rating_patch =
     \<lparr> patch_status = None, patch_rating = Some 10, patch_review = None, patch_extra = [] \<rparr>"


definition completed_update :: EntryUpdate where
  "completed_update =
     \<lparr> EntryUpdate.status = Some ''Completed'', EntryUpdate.rating = Some 5,
       EntryUpdate.review = None \<rparr>"

text \<open>A stand-in for Python's \<open>str\<close> on the identifiers of the examples.\<close>

definition example_str :: "pyval \<Rightarrow> string" where
  "example_str v =
     (case v of
        PStr s \<Rightarrow> s
      | PInt n \<Rightarrow> (if n = 1 then ''1'' else ''5'')
      | _ \<Rightarrow> ''None'')"

text \<open>A network on which every call raises, with a text of 121 characters.\<close>

definition failing_net :: upstream where
  "failing_net req = Inl (replicate 121 (CHR ''x''))"

text \<open>A network on which every provider answers 503 with a body that is not JSON.\<close>

definition unavailable_net :: upstream where
  "unavailable_net req =
     Inr \<lparr> status_code = 503, http_error = ''503 Server Error: Service Unavailable'',
           body = Inl ''Expecting value: line 1 column 1 (char 0)'' \<rparr>"

text \<open>A network on which every provider answers 200 with the given JSON.\<close>

definition json_net :: "pyval \<Rightarrow> upstream" where
  "json_net j req = Inr \<lparr> status_code = 200, http_error = [], body = Inr j \<rparr>"

definition nested_year :: "int \<Rightarrow> pyval" where
  "nested_year n = PDict [(''prop'', PDict [(''from'', PDict [(''year'', PInt n)])])]"

definition zero_year_item :: pyval where
  "zero_year_item = PDict [(''mal_id'', PInt 1), (''title'', PStr ''Bebop''),
                           (''year'', PInt 0), (''aired'', nested_year 1998)]"

definition anime_items :: "pyval list" where
  "anime_items =
     [PDict [(''mal_id'', PInt 1), (''title'', PStr ''Bebop''), (''year'', PInt 2001),
             (''aired'', nested_year 1998)],
      PDict [(''mal_id'', PInt 5), (''title'', PStr ''Movie''), (''year'', PNone),
             (''aired'', nested_year 1999)]]"

section \<open>Properties\<close>

subsection \<open>Auxiliary facts\<close>

lemma ObjectId_example: "ObjectId example_id = Inr example_oid"
  by (simp add: ObjectId_def hex_digit_def ascii_space_def example_id_def example_oid_def)




lemma dump_nonempty:
  "(model_dump_exclude_none p \<noteq> []) =
   (EntryUpdate.status p \<noteq> None \<or> EntryUpdate.rating p \<noteq> None \<or> EntryUpdate.review p \<noteq> None)"
  by (cases "EntryUpdate.status p"; cases "EntryUpdate.rating p"; cases "EntryUpdate.review p")
     (simp_all add: model_dump_exclude_none_def)

text \<open>
  With a connected store, \<open>update_entry\<close> has two outcomes only, and neither touches
  the store: an empty update returns at line 117, and any other raises at line 118.
\<close>

lemma update_entry_connected:
  assumes "db w = Some d"
  shows "update_entry now entry_id p w =
           (if model_dump_exclude_none p = [] then Inr (PDict [(''updated'', PBool False)])
            else Inl (Unhandled no_datetime), w)"
  using assms by (simp add: update_entry_def requests_utils_utcnow_def Let_def)

lemma strip_all_space: "(\<forall>c\<in>set q. py_isspace c) \<Longrightarrow> strip q = []"
proof -
  assume "\<forall>c\<in>set q. py_isspace c"
  then have "dropWhile py_isspace q = []" by (simp add: dropWhile_eq_Nil_conv)
  then show ?thesis by (simp only: strip_def rev.simps dropWhile.simps)
qed

lemma for_each_all2:
  "for_each f xs = Inr ys \<Longrightarrow> list_all2 (\<lambda>x y. f x = Inr y) xs ys"
proof (induction xs arbitrary: ys)
  case Nil
  then show ?case by simp
next
  case (Cons x xs)
  then show ?case
    by (auto simp: and_then_def split: sum.splits)
qed

lemma fetch_failed:
  assumes "upstream_failed net req"
  shows "and_then (requests_get net req)
           (\<lambda>r. and_then (raise_for_status r) (\<lambda>_. and_then (json r) f))
         = Inl (RequestException (failure_text net req))"
  using assms
  by (auto simp: upstream_failed_def failure_text_def requests_get_def raise_for_status_def
      json_def and_then_def isl_def split: sum.splits)

lemma search_body_failed:
  assumes "upstream_failed net (search_request q mt limit)"
  shows "search_body net py_str q mt limit =
           Inl (RequestException (failure_text net (search_request q mt limit)))"
proof (cases "mt = ''anime''")
  case True
  then show ?thesis
    using assms fetch_failed [of net "anime_request q limit"]
    by (simp add: search_body_def search_request_def)
next
  case False
  note not_anime = this
  show ?thesis
  proof (cases "mt = ''series''")
    case True
    then show ?thesis
      using assms not_anime fetch_failed [of net "series_request q"]
      by (simp add: search_body_def search_request_def)
  next
    case False
    then show ?thesis
      using assms not_anime fetch_failed [of net "movie_request q limit"]
      by (simp add: search_body_def search_request_def)
  qed
qed

lemma anime_result_year:
  assumes "anime_result py_str item = Inr res"
  shows "year_rule item res"
  using assms
  by (auto simp: anime_result_def anime_year_def year_rule_def and_then_def
      split: sum.splits if_splits)

lemma anime_body_items:
  assumes "search_body net py_str q ''anime'' limit = Inr results"
  shows "\<exists>r j d items. net (anime_request q limit) = Inr r \<and> body r = Inr j
           \<and> py_get j ''data'' (PList []) = Inr d \<and> sliced_items limit d = Inr items
           \<and> for_each (anime_result py_str) items = Inr results"
  using assms
  by (auto simp: search_body_def requests_get_def raise_for_status_def json_def and_then_def
      split: sum.splits if_splits)

subsection \<open>Validation of a partial update\<close>

text \<open>
  C1 (the code does not do what the claim says). The claim: a \<open>PATCH\<close> whose body has a
  rating outside 1..5 is rejected with a validation error, a client-class error, at the
  validation boundary. On the code, the body \<open>{"rating": 10}\<close> passes the validation of
  \<open>EntryUpdate\<close>, which declares no bounds, and the handler runs on the payload with
  rating 10; with a connected store it then ends with the unhandled \<open>AttributeError\<close> of
  line 118, status 500, which is not a client-class error. The same rating in a create
  body is rejected by the bounds that \<open>Entry\<close> declares.
\<close>

theorem patch_rating_out_of_range_not_rejected:
  "validate_EntryUpdate rating_patch =
     Inr \<lparr> EntryUpdate.status = None, EntryUpdate.rating = Some 10,
           EntryUpdate.review = None \<rparr>
   \<and> patch_entries 1700000000 example_id rating_patch connected =
       (Inl (Unhandled no_datetime), connected)
   \<and> http_status (Unhandled no_datetime) = 500
   \<and> \<not> client_class (Unhandled no_datetime)
   \<and> validate_Entry rated_body = Inl RequestValidationError"
proof -
  have valid: "validate_EntryUpdate rating_patch =
     Inr \<lparr> EntryUpdate.status = None, EntryUpdate.rating = Some 10,
           EntryUpdate.review = None \<rparr>"
    by (simp add: validate_EntryUpdate_def rating_patch_def)
  have c: "db connected = Some example_db" by (simp add: connected_def)
  have patch: "patch_entries 1700000000 example_id rating_patch connected =
       (Inl (Unhandled no_datetime), connected)"
    by (simp add: patch_entries_def valid update_entry_connected [OF c]
        model_dump_exclude_none_def)
  have cls: "\<not> client_class (Unhandled no_datetime)"
    by (simp add: client_class_def)
  have create: "validate_Entry rated_body = Inl RequestValidationError"
    by (simp add: validate_Entry_def rated_body_def media_types_def statuses_def)
  show ?thesis using valid patch cls create by simp
qed

subsection \<open>Partial update of a stored entry\<close>

text \<open>
  C2 (the code does not do what the claim says). The claim: with a connected store, the
  id of a stored entry and a payload supplying at least one of \<open>status\<close>, \<open>rating\<close>,
  \<open>review\<close>, the handler stamps \<open>updated_at\<close>, applies the supplied fields and returns
  \<open>{"updated": true}\<close>. On the code, with a connected store and such a payload,
  \<open>update_entry\<close> raises the \<open>AttributeError\<close> of line 118 whatever the \<open>entry_id\<close> is: the
  error is server-class and the world is as before, so nothing is sent to the store and
  no record is stamped or changed. No call of \<open>update_entry\<close> returns \<open>{"updated": true}\<close>.
\<close>

theorem update_raises_at_stamp:
  assumes conn: "db w = Some d"
    and supplied: "EntryUpdate.status p \<noteq> None \<or> EntryUpdate.rating p \<noteq> None
                   \<or> EntryUpdate.review p \<noteq> None"
  shows "update_entry now entry_id p w = (Inl (Unhandled no_datetime), w)
       \<and> server_class (Unhandled no_datetime)
       \<and> fst (update_entry now' entry_id' p' w') \<noteq> Inr (PDict [(''updated'', PBool True)])"
proof -
  have ne: "model_dump_exclude_none p \<noteq> []" using supplied by (simp add: dump_nonempty)
  have run: "update_entry now entry_id p w = (Inl (Unhandled no_datetime), w)"
    using ne by (simp add: update_entry_connected [OF conn])
  have cls: "server_class (Unhandled no_datetime)"
    by (simp add: server_class_def)
  have never: "fst (update_entry now' entry_id' p' w') \<noteq> Inr (PDict [(''updated'', PBool True)])"
    by (cases "db w'")
       (simp_all add: update_entry_def requests_utils_utcnow_def Let_def)
  show ?thesis using run cls never by simp
qed

text \<open>
  C2, at a concrete input: the stored entry is to be marked completed and rated 5; the
  call raises and the store still holds the entry as it was.
\<close>

theorem update_raises_at_stamp_witness:
  "db connected = Some example_db
   \<and> ObjectId example_id = Inr example_oid
   \<and> example_db ''entry'' example_oid = Some example_doc
   \<and> EntryUpdate.status completed_update \<noteq> None
   \<and> update_entry 1700000000 example_id completed_update connected =
       (Inl (Unhandled no_datetime), connected)"
proof -
  have c: "db connected = Some example_db" by (simp add: connected_def)
  have s: "example_db ''entry'' example_oid = Some example_doc" by (simp add: example_db_def)
  have st: "EntryUpdate.status completed_update \<noteq> None"
    by (simp add: completed_update_def)
  have u: "EntryUpdate.status completed_update \<noteq> None
           \<or> EntryUpdate.rating completed_update \<noteq> None
           \<or> EntryUpdate.review completed_update \<noteq> None"
    using st by simp
  from update_raises_at_stamp [OF c u, where now = 1700000000 and entry_id = example_id]
  have "update_entry 1700000000 example_id completed_update connected =
       (Inl (Unhandled no_datetime), connected)"
    by simp
  with c s st ObjectId_example show ?thesis by simp
qed

subsection \<open>Store not connected\<close>

text \<open>
  C3. When the store is not connected, each of the three mutating operations ends at
  once with a server-class error and the world (the store and the record of operations
  sent to it) is as before: \<open>update_entry\<close> and \<open>delete_entry\<close> raise
  \<open>HTTPException 500\<close> with detail \<open>Database not available\<close> as their first step, and
  \<open>create_entry\<close> fails with the \<open>StorageUnavailable\<close> of \<open>create_document\<close>, which no
  handler catches and which is therefore answered with status 500.
\<close>

theorem unavailable_short_circuits:
  assumes "db w = None"
  shows "create_entry new_id payload w = (Inl StorageUnavailable, w)
       \<and> update_entry now entry_id upd w =
           (Inl (HTTPException 500 ''Database not available''), w)
       \<and> delete_entry entry_id w =
           (Inl (HTTPException 500 ''Database not available''), w)
       \<and> server_class StorageUnavailable
       \<and> server_class (HTTPException 500 ''Database not available'')"
  using assms
  by (simp add: create_entry_def create_document_def update_entry_def delete_entry_def
      server_class_def)

text \<open>C3, at a concrete input: the three operations on the world with no store.\<close>

theorem unavailable_short_circuits_witness:
  "db disconnected = None
   \<and> create_entry example_oid example_entry disconnected =
       (Inl StorageUnavailable, disconnected)
   \<and> update_entry 1700000000 example_id completed_update disconnected =
       (Inl (HTTPException 500 ''Database not available''), disconnected)
   \<and> delete_entry example_id disconnected =
       (Inl (HTTPException 500 ''Database not available''), disconnected)"
proof -
  have d: "db disconnected = None" by (simp add: disconnected_def)
  from unavailable_short_circuits
         [where w = disconnected and new_id = example_oid and payload = example_entry
            and now = 1700000000 and entry_id = example_id and upd = completed_update, OF d]
  show ?thesis using d by simp
qed

subsection \<open>Failure of a search provider\<close>

text \<open>
  C4 (as amended). For a query that is not blank, when the call to the provider fails
  (\<^verbatim>\<open>requests.get\<close> raises, the status is an error, or the body is not JSON), the body
  of \<open>search\<close> raises the exception of that failure, and \<open>search\<close> sends that one request
  and raises \<open>HTTPException 502\<close>; its detail is \<open>Search failed: \<close> followed by the first
  120 characters of the text of that exception, so the detail has at most 135
  characters, of which at most 120 are diagnostic text.
\<close>

theorem search_failure_bad_gateway:
  assumes nonblank: "strip q \<noteq> []"
    and failed: "upstream_failed net (search_request (strip q) mt limit)"
  shows "search_body net py_str (strip q) mt limit =
           Inl (RequestException (failure_text net (search_request (strip q) mt limit)))
       \<and> search net py_str q mt limit =
           ([search_request (strip q) mt limit],
            Inl (HTTPException 502
                   (''Search failed: ''
                    @ take 120 (failure_text net (search_request (strip q) mt limit)))))
       \<and> length (take 120 (failure_text net (search_request (strip q) mt limit))) \<le> 120
       \<and> length (''Search failed: ''
                 @ take 120 (failure_text net (search_request (strip q) mt limit))) \<le> 135
       \<and> http_status (HTTPException 502
            (''Search failed: ''
             @ take 120 (failure_text net (search_request (strip q) mt limit)))) = 502"
proof -
  let ?t = "failure_text net (search_request (strip q) mt limit)"
  have raised: "search_body net py_str (strip q) mt limit = Inl (RequestException ?t)"
    using failed by (rule search_body_failed)
  have run: "search net py_str q mt limit =
            ([search_request (strip q) mt limit],
             Inl (HTTPException 502 (''Search failed: '' @ take 120 ?t)))"
    using nonblank raised by (simp add: search_def Let_def)
  show ?thesis using raised run by simp
qed

text \<open>
  C4 as stated does not hold: the message of the failure can be longer than 120
  characters. When \<^verbatim>\<open>requests.get\<close> raises with a text of 121 characters, the detail
  of the 502 is \<open>Search failed: \<close> and the first 120 of them, 135 characters in all.
\<close>

theorem search_detail_too_long:
  "snd (search failing_net example_str ''dune'' ''movie'' 10) =
     Inl (HTTPException 502 (''Search failed: '' @ replicate 120 (CHR ''x'')))
   \<and> length (''Search failed: '' @ replicate 120 (CHR ''x'')) = 135"
  by (simp add: search_def strip_def py_isspace_def search_body_def requests_get_def
      failing_net_def and_then_def Let_def)

text \<open>
  C4, at a concrete input: the series provider answers 503 with a body that is not
  JSON; the detail carries the text of the \<open>HTTPError\<close>.
\<close>

theorem search_failure_bad_gateway_witness:
  "strip ''dune'' \<noteq> []
   \<and> upstream_failed unavailable_net (search_request (strip ''dune'') ''series'' 10)
   \<and> failure_text unavailable_net (search_request (strip ''dune'') ''series'' 10) =
       ''503 Server Error: Service Unavailable''
   \<and> search unavailable_net example_str ''dune'' ''series'' 10 =
       ([series_request ''dune''],
        Inl (HTTPException 502 ''Search failed: 503 Server Error: Service Unavailable''))"
proof -
  have s: "strip ''dune'' \<noteq> []"
    by (simp add: strip_def py_isspace_def)
  have f: "upstream_failed unavailable_net (search_request (strip ''dune'') ''series'' 10)"
    by (simp add: upstream_failed_def unavailable_net_def)
  have t: "failure_text unavailable_net (search_request (strip ''dune'') ''series'' 10) =
       ''503 Server Error: Service Unavailable''"
    by (simp add: failure_text_def unavailable_net_def)
  have r: "search_request (strip ''dune'') ''series'' 10 = series_request ''dune''"
    by (simp add: search_request_def strip_def py_isspace_def)
  have t': "failure_text unavailable_net (series_request ''dune'') =
       ''503 Server Error: Service Unavailable''"
    by (simp add: failure_text_def unavailable_net_def)
  from search_failure_bad_gateway [OF s f, where py_str = example_str]
  have run: "search unavailable_net example_str ''dune'' ''series'' 10 =
       ([series_request ''dune''],
        Inl (HTTPException 502 ''Search failed: 503 Server Error: Service Unavailable''))"
    by (simp add: r t')
  show ?thesis using s f t run by simp
qed

subsection \<open>Partial update that supplies no field\<close>

text \<open>
  C5 (as amended). With a connected store, a \<open>PATCH\<close> whose body has none of \<open>status\<close>,
  \<open>rating\<close>, \<open>review\<close> (whatever other fields it has, and whatever the \<open>entry_id\<close>) is
  answered \<open>{"updated": false}\<close>, and the world is as before: nothing is sent to the
  store and every stored record, \<open>updated_at\<close> included, is unchanged.
\<close>

theorem empty_patch_no_write:
  assumes "db w = Some d"
    and "patch_status b = None" and "patch_rating b = None" and "patch_review b = None"
  shows "patch_entries now entry_id b w = (Inr (PDict [(''updated'', PBool False)]), w)"
  using assms
  by (simp add: patch_entries_def validate_EntryUpdate_def update_entry_def
      model_dump_exclude_none_def)

text \<open>
  C5 as stated does not hold for every such request: when the store is not connected,
  the body with no fields is answered with \<open>HTTPException 500\<close>, because the check of the
  connection comes before the check for an empty update.
\<close>

theorem empty_patch_disconnected:
  "patch_entries 1700000000 example_id empty_patch disconnected =
     (Inl (HTTPException 500 ''Database not available''), disconnected)"
  by (simp add: patch_entries_def validate_EntryUpdate_def empty_patch_def update_entry_def
      disconnected_def)

text \<open>C5, at a concrete input: a body with only the undeclared field \<open>title\<close>.\<close>

theorem empty_patch_no_write_witness:
  "db connected = Some example_db
   \<and> patch_status unrecognized_patch = None
   \<and> patch_rating unrecognized_patch = None
   \<and> patch_review unrecognized_patch = None
   \<and> patch_extra unrecognized_patch = [(''title'', PStr ''Arrival'')]
   \<and> patch_entries 1700000000 example_id unrecognized_patch connected =
       (Inr (PDict [(''updated'', PBool False)]), connected)"
proof -
  have c: "db connected = Some example_db" by (simp add: connected_def)
  have s: "patch_status unrecognized_patch = None" by (simp add: unrecognized_patch_def)
  have r: "patch_rating unrecognized_patch = None" by (simp add: unrecognized_patch_def)
  have v: "patch_review unrecognized_patch = None" by (simp add: unrecognized_patch_def)
  have x: "patch_extra unrecognized_patch = [(''title'', PStr ''Arrival'')]"
    by (simp add: unrecognized_patch_def)
  from empty_patch_no_write [OF c s r v, of 1700000000 example_id]
  show ?thesis using c s r v x by simp
qed

subsection \<open>Unknown identifier\<close>




subsection \<open>Blank search query\<close>

text \<open>
  C7. When every character of the query is whitespace (the empty query included),
  \<open>search\<close> returns the empty list and sends no request to any provider, whatever the
  network, the media type and the limit are.
\<close>

theorem search_blank_query:
  assumes "list_all py_isspace q"
  shows "search net py_str q mt limit = ([], Inr [])"
  using assms by (simp add: search_def strip_all_space list_all_iff)

text \<open>C7, at a concrete input: the query of two spaces, for movies.\<close>

theorem search_blank_query_witness:
  "list_all py_isspace ''  ''
   \<and> search failing_net example_str ''  '' ''movie'' 10 = ([], Inr [])"
proof -
  have b: "list_all py_isspace ''  ''" by (simp add: py_isspace_def)
  from search_blank_query [OF b, of failing_net example_str "''movie''" 10]
  show ?thesis using b by simp
qed

subsection \<open>Year of an anime result\<close>

text \<open>
  C8 (as amended). For a query that is not blank and the media type \<open>anime\<close>, when
  \<open>search\<close> returns results, they correspond one to one, in order, to the first \<open>limit\<close>
  items of the \<open>data\<close> of the provider's response, and the \<open>year\<close> of each result is the
  item's own \<open>year\<close> when that value is truthy (there, not null and not zero), and
  otherwise the \<open>year\<close> nested in the \<open>from\<close> of the \<open>prop\<close> of the item's \<open>aired\<close>.
\<close>

theorem anime_year_rule:
  assumes nonblank: "strip q \<noteq> []"
    and ok: "snd (search net py_str q ''anime'' limit) = Inr results"
  shows "\<exists>r j d items.
           net (anime_request (strip q) limit) = Inr r \<and> body r = Inr j
         \<and> py_get j ''data'' (PList []) = Inr d \<and> sliced_items limit d = Inr items
         \<and> list_all2 year_rule items results"
proof -
  have "search_body net py_str (strip q) ''anime'' limit = Inr results"
    using nonblank ok by (simp add: search_def Let_def split: sum.splits)
  then obtain r j d items where
    parts: "net (anime_request (strip q) limit) = Inr r" "body r = Inr j"
           "py_get j ''data'' (PList []) = Inr d" "sliced_items limit d = Inr items"
    and each: "for_each (anime_result py_str) items = Inr results"
    using anime_body_items by blast
  have "list_all2 (\<lambda>x y. anime_result py_str x = Inr y) items results"
    using each by (rule for_each_all2)
  then have "list_all2 year_rule items results"
    by (rule list_all2_mono) (rule anime_result_year)
  with parts show ?thesis by blast
qed

text \<open>
  C8 as stated does not hold: an item whose top-level \<open>year\<close> is present but falsy is
  given the nested year. For the item with \<open>year\<close> 0 and first-aired year 1998 the result
  has year 1998, not 0.
\<close>

theorem anime_zero_year_falls_back:
  "py_get zero_year_item ''year'' PNone = Inr (PInt 0)
   \<and> snd (search (json_net (PDict [(''data'', PList [zero_year_item])])) example_str
            ''bebop'' ''anime'' 10) =
       Inr [PDict [(''title'', PStr ''Bebop''), (''year'', PInt 1998), (''image'', PNone),
                   (''external_id'', PStr ''1''), (''source'', PStr ''jikan''),
                   (''media_type'', PStr ''anime'')]]"
  by (simp add: search_def strip_def py_isspace_def search_body_def requests_get_def json_net_def
      raise_for_status_def json_def sliced_items_def py_take_def anime_result_def anime_year_def
      first_aired_year_def anime_image_def anime_jpg_def py_or_def zero_year_item_def
      nested_year_def example_str_def and_then_def Let_def)

text \<open>
  C8, at a concrete input: a response with two items, the first with its own year 2001
  (and first-aired year 1998), the second with a null year and first-aired year 1999.
\<close>

theorem anime_year_rule_witness:
  "strip ''bebop'' \<noteq> []
   \<and> snd (search (json_net (PDict [(''data'', PList anime_items)])) example_str
            ''bebop'' ''anime'' 10) =
       Inr [PDict [(''title'', PStr ''Bebop''), (''year'', PInt 2001), (''image'', PNone),
                   (''external_id'', PStr ''1''), (''source'', PStr ''jikan''),
                   (''media_type'', PStr ''anime'')],
            PDict [(''title'', PStr ''Movie''), (''year'', PInt 1999), (''image'', PNone),
                   (''external_id'', PStr ''5''), (''source'', PStr ''jikan''),
                   (''media_type'', PStr ''anime'')]]
   \<and> list_all2 year_rule anime_items
       [PDict [(''title'', PStr ''Bebop''), (''year'', PInt 2001), (''image'', PNone),
                   (''external_id'', PStr ''1''), (''source'', PStr ''jikan''),
                   (''media_type'', PStr ''anime'')],
            PDict [(''title'', PStr ''Movie''), (''year'', PInt 1999), (''image'', PNone),
                   (''external_id'', PStr ''5''), (''source'', PStr ''jikan''),
                   (''media_type'', PStr ''anime'')]]"
proof -
  have s: "strip ''bebop'' \<noteq> []"
    by (simp add: strip_def py_isspace_def)
  have run: "snd (search (json_net (PDict [(''data'', PList anime_items)])) example_str
            ''bebop'' ''anime'' 10) =
       Inr [PDict [(''title'', PStr ''Bebop''), (''year'', PInt 2001), (''image'', PNone),
                   (''external_id'', PStr ''1''), (''source'', PStr ''jikan''),
                   (''media_type'', PStr ''anime'')],
            PDict [(''title'', PStr ''Movie''), (''year'', PInt 1999), (''image'', PNone),
                   (''external_id'', PStr ''5''), (''source'', PStr ''jikan''),
                   (''media_type'', PStr ''anime'')]]"
    by (simp add: search_def strip_def py_isspace_def search_body_def requests_get_def json_net_def
      raise_for_status_def json_def sliced_items_def py_take_def anime_result_def anime_year_def
      first_aired_year_def anime_image_def anime_jpg_def py_or_def anime_items_def nested_year_def
      example_str_def and_then_def Let_def)
  show ?thesis
    using anime_year_rule [OF s run] s run
    by (auto simp: json_net_def sliced_items_def py_take_def and_then_def anime_items_def)
qed

subsection \<open>Identifier that is not an ObjectId\<close>




subsection \<open>Empty filter parameter\<close>

text \<open>
  C10. In \<open>list_entries\<close>, a \<open>media_type\<close> or \<open>status\<close> parameter equal to the empty string
  is treated as an absent one. With an empty \<open>media_type\<close>, \<open>get_documents\<close> is called on
  the collection \<open>entry\<close> with the limit and with the filter that the \<open>status\<close> parameter
  alone gives, which has no entry for \<open>media_type\<close>; what \<open>list_entries\<close> returns is what
  that call yields, each document serialised (or the error it raises). The same holds
  with the two parameters exchanged, and with both empty the filter is empty. So the
  entries returned are those the store gives with no equality on that field, and the
  call is the same as without the parameter.
\<close>

theorem empty_filter_parameter:
  "list_entries get_documents py_str (Some []) st limit =
     (case get_documents ''entry''
             (case st of None \<Rightarrow> []
              | Some s \<Rightarrow> if s = [] then [] else [(''status'', PStr s)]) limit of
        Inl e \<Rightarrow> Inl e
      | Inr docs \<Rightarrow> Inr (map (\<lambda>d. PDict (serialize_doc py_str d)) docs))
   \<and> list_entries get_documents py_str mt (Some []) limit =
     (case get_documents ''entry''
             (case mt of None \<Rightarrow> []
              | Some m \<Rightarrow> if m = [] then [] else [(''media_type'', PStr m)]) limit of
        Inl e \<Rightarrow> Inl e
      | Inr docs \<Rightarrow> Inr (map (\<lambda>d. PDict (serialize_doc py_str d)) docs))
   \<and> list_entries get_documents py_str (Some []) (Some []) limit =
     (case get_documents ''entry'' [] limit of
        Inl e \<Rightarrow> Inl e
      | Inr docs \<Rightarrow> Inr (map (\<lambda>d. PDict (serialize_doc py_str d)) docs))
   \<and> list_entries get_documents py_str (Some []) st limit =
       list_entries get_documents py_str None st limit
   \<and> list_entries get_documents py_str mt (Some []) limit =
       list_entries get_documents py_str mt None limit
   \<and> map_of (list_filter (Some []) st) ''media_type'' = None
   \<and> map_of (list_filter mt (Some [])) ''status'' = None
   \<and> list_filter (Some []) (Some []) = []"
proof -
  have g1: "list_filter (Some []) st =
              (case st of None \<Rightarrow> []
               | Some s \<Rightarrow> if s = [] then [] else [(''status'', PStr s)])"
    by (cases st) (simp_all add: list_filter_def add_filter_def)
  have g2: "list_filter mt (Some []) =
              (case mt of None \<Rightarrow> []
               | Some m \<Rightarrow> if m = [] then [] else [(''media_type'', PStr m)])"
    by (cases mt) (simp_all add: list_filter_def add_filter_def)
  have f1: "list_filter (Some []) st = list_filter None st"
    by (simp add: list_filter_def add_filter_def)
  have f2: "list_filter mt (Some []) = list_filter mt None"
    by (simp add: list_filter_def add_filter_def)
  have f3: "map_of (list_filter (Some []) st) ''media_type'' = None"
    by (cases st) (simp_all add: list_filter_def add_filter_def)
  have f4: "map_of (list_filter mt (Some [])) ''status'' = None"
    by (cases mt) (simp_all add: list_filter_def add_filter_def)
  have f5: "list_filter (Some []) (Some []) = []"
    by (simp add: list_filter_def add_filter_def)
  have c1: "list_entries get_documents py_str (Some []) st limit =
     (case get_documents ''entry''
             (case st of None \<Rightarrow> []
              | Some s \<Rightarrow> if s = [] then [] else [(''status'', PStr s)]) limit of
        Inl e \<Rightarrow> Inl e
      | Inr docs \<Rightarrow> Inr (map (\<lambda>d. PDict (serialize_doc py_str d)) docs))"
    unfolding list_entries_def g1 by (rule refl)
  have c2: "list_entries get_documents py_str mt (Some []) limit =
     (case get_documents ''entry''
             (case mt of None \<Rightarrow> []
              | Some m \<Rightarrow> if m = [] then [] else [(''media_type'', PStr m)]) limit of
        Inl e \<Rightarrow> Inl e
      | Inr docs \<Rightarrow> Inr (map (\<lambda>d. PDict (serialize_doc py_str d)) docs))"
    unfolding list_entries_def g2 by (rule refl)
  have c3: "list_entries get_documents py_str (Some []) (Some []) limit =
     (case get_documents ''entry'' [] limit of
        Inl e \<Rightarrow> Inl e
      | Inr docs \<Rightarrow> Inr (map (\<lambda>d. PDict (serialize_doc py_str d)) docs))"
    unfolding list_entries_def f5 by (rule refl)
  have e1: "list_entries get_documents py_str (Some []) st limit =
       list_entries get_documents py_str None st limit"
    unfolding list_entries_def f1 by (rule refl)
  have e2: "list_entries get_documents py_str mt (Some []) limit =
       list_entries get_documents py_str mt None limit"
    unfolding list_entries_def f2 by (rule refl)
  from c1 c2 c3 e1 e2 f3 f4 f5 show ?thesis by (intro conjI)
qed

end
